theory Spec2Isabelle
  imports Complex_Main "HOL-Library.Sublist"
begin

section \<open>Data model\<close>

text \<open>
  The frontend of the marketing platform is a React application.  Every page is a function
  component whose state lives in \<open>useState\<close> cells; the forecast result and the loading
  flag live in a context shared by all pages (\<open>contexts/AppContext.tsx\<close>).  An event handler
  is modelled as a function from the state before the event to the state after it.  An
  \<open>async\<close> handler is cut at its single \<open>await\<close>: the part before it (\<open>_start\<close>) runs when
  the handler is invoked and dispatches the request, the part after it (\<open>_resume\<close>) runs
  when the awaited promise settles and receives the settled promise.  State setters apply to
  the state current at the time they run, so both parts are state transformers.  Calls of
  \<open>console.error\<close> are left out.

  JavaScript numbers that arrive in JSON are modelled as rationals, strings as \<open>string\<close>.
  The response payloads are typed as the TypeScript interfaces and the handlers' field reads
  declare them; a field that is absent (\<open>undefined\<close>) is \<open>None\<close>.
\<close>

type_synonym number = rat

subsection \<open>contexts/AppContext.tsx\<close>

record campaign_details_t =
  type' :: string
  offer :: string
  target :: string
  discount :: number
  budget :: number
  target_size :: number

record report_links_t =
  html :: string
  pdf :: string

record ForecastResults =
  segment_count :: number
  recommended_campaign_type :: string
  recommended_offer :: string
  success_probability :: number
  privacy_compliance :: bool
  campaign_details :: campaign_details_t
  report_links :: report_links_t

text \<open>A browser \<open>File\<close>: its name and its size in bytes.\<close>

record File =
  name :: string
  size' :: nat

text \<open>What \<open>sonner\<close>'s \<open>toast.error\<close> and \<open>toast.success\<close> were called with.\<close>

datatype toast = toast_error string | toast_success string

text \<open>A call of \<open>api.post(path, body)\<close>: the path and the body handed to axios.\<close>

datatype body = FormData "(string \<times> File) list" | Json "(string \<times> string) list"

datatype request = Post string body

text \<open>
  The state every page shares: the two cells of \<open>AppProvider\<close> (\<open>forecastResults\<close>,
  initially \<open>null\<close>, and \<open>isLoading\<close>, initially \<open>false\<close>), and the two effect logs: the toasts
  shown and the requests handed to axios, oldest first.
\<close>

record app =
  forecastResults :: "ForecastResults option"
  isLoading :: bool
  toasts :: "toast list"
  requests :: "request list"

definition AppProvider :: app where
  "AppProvider = \<lparr>forecastResults = None, isLoading = False, toasts = [], requests = []\<rparr>"

definition show_toast :: "toast \<Rightarrow> app \<Rightarrow> app" where
  "show_toast t w = w\<lparr>toasts := toasts w @ [t]\<rparr>"

definition api_post :: "request \<Rightarrow> app \<Rightarrow> app" where
  "api_post r w = w\<lparr>requests := requests w @ [r]\<rparr>"

subsection \<open>Promises, errors and payloads\<close>

text \<open>
  An exception value.  \<open>AxiosError st\<close> is the error an axios promise rejects with:
  \<open>st = Some n\<close> when the backend answered with HTTP status \<open>n\<close> that axios does not accept
  (the instance of \<open>services/api.ts\<close> sets only \<open>baseURL\<close> and \<open>headers\<close>, so the default
  applies and every status outside 2xx rejects), \<open>st = None\<close> when no response arrived
  (connection refused, timeout).  \<open>TypeError\<close> is thrown by a property read on \<open>null\<close> or
  \<open>undefined\<close>.
\<close>

datatype exn = AxiosError "nat option" | TypeError

fun is_transport_fault :: "exn \<Rightarrow> bool" where
  "is_transport_fault (AxiosError None) = True"
| "is_transport_fault _ = False"

text \<open>A settled promise: what \<open>await\<close> yields, or the exception it throws.\<close>

datatype 'a promise = Fulfilled 'a | Rejected exn

record 'd AxiosResponse =
  data :: 'd
  http_status :: nat

text \<open>
  A response body as the handlers read it.  \<open>JNull\<close> is \<open>null\<close> or \<open>undefined\<close>: reading a
  property of it throws.  \<open>JOther\<close> is any other value that has none of the fields a handler
  reads (a string, a number, an array, an object of another shape): each read yields
  \<open>undefined\<close>.  \<open>JObject r\<close> is an object with the fields of \<open>r\<close>.
\<close>

datatype 'a json_body = JNull | JOther | JObject 'a

record forecast_data =
  status :: "string option"
  results :: "ForecastResults option"

record image_data =
  image_url :: "string option"

text \<open>\<open>slogans'\<close> is \<open>Some xs\<close> when the field \<open>slogans\<close> is an array.\<close>

record slogan_data =
  slogans' :: "string list option"

record VideoInfo =
  video_id :: string
  url :: string
  chunk_count :: number
  title :: "string option"

record process_data =
  video_info :: "VideoInfo option"

record query_data =
  answer' :: "string option"

section \<open>services/api.ts\<close>

record ForecastRequest =
  customers_file :: File
  campaign_history_file :: File

record ImageGenerationRequest =
  prompt_req :: string

record SloganGenerationRequest =
  context_req :: string

record RAGProcessRequest =
  youtube_url :: string

record RAGQueryRequest =
  question_req :: string

text \<open>The request each operation hands to \<open>api.post\<close>.\<close>

definition runForecast_post :: "ForecastRequest \<Rightarrow> request" where
  "runForecast_post d =
     Post ''/forecast'' (FormData [(''customers_file'', customers_file d),
                                   (''campaign_history_file'', campaign_history_file d)])"

definition generateImage_post :: "ImageGenerationRequest \<Rightarrow> request" where
  "generateImage_post d = Post ''/img'' (Json [(''prompt'', prompt_req d)])"

definition generateSlogan_post :: "SloganGenerationRequest \<Rightarrow> request" where
  "generateSlogan_post d = Post ''/slogan'' (Json [(''context'', context_req d)])"

definition processVideo_post :: "RAGProcessRequest \<Rightarrow> request" where
  "processVideo_post d = Post ''/rag/process'' (Json [(''youtube_url'', youtube_url d)])"

definition queryVideo_post :: "RAGQueryRequest \<Rightarrow> request" where
  "queryVideo_post d = Post ''/rag/query'' (Json [(''question'', question_req d)])"

text \<open>
  The five operations.  Each awaits \<open>api.post\<close> with no \<open>try\<close> around it and returns
  \<open>response.data\<close>; the transport \<open>post\<close> (axios) is a parameter: it maps the request to the
  settled promise of the exchange.  The result is the settled promise the \<open>async\<close> function
  returns.
\<close>

definition runForecast ::
  "(request \<Rightarrow> 'd AxiosResponse promise) \<Rightarrow> ForecastRequest \<Rightarrow> 'd promise" where
  "runForecast post d =
     (case post (runForecast_post d) of
        Rejected e \<Rightarrow> Rejected e
      | Fulfilled response \<Rightarrow> Fulfilled (data response))"

definition generateImage ::
  "(request \<Rightarrow> 'd AxiosResponse promise) \<Rightarrow> ImageGenerationRequest \<Rightarrow> 'd promise" where
  "generateImage post d =
     (case post (generateImage_post d) of
        Rejected e \<Rightarrow> Rejected e
      | Fulfilled response \<Rightarrow> Fulfilled (data response))"

definition generateSlogan ::
  "(request \<Rightarrow> 'd AxiosResponse promise) \<Rightarrow> SloganGenerationRequest \<Rightarrow> 'd promise" where
  "generateSlogan post d =
     (case post (generateSlogan_post d) of
        Rejected e \<Rightarrow> Rejected e
      | Fulfilled response \<Rightarrow> Fulfilled (data response))"

definition processVideo ::
  "(request \<Rightarrow> 'd AxiosResponse promise) \<Rightarrow> RAGProcessRequest \<Rightarrow> 'd promise" where
  "processVideo post d =
     (case post (processVideo_post d) of
        Rejected e \<Rightarrow> Rejected e
      | Fulfilled response \<Rightarrow> Fulfilled (data response))"

definition queryVideo ::
  "(request \<Rightarrow> 'd AxiosResponse promise) \<Rightarrow> RAGQueryRequest \<Rightarrow> 'd promise" where
  "queryVideo post d =
     (case post (queryVideo_post d) of
        Rejected e \<Rightarrow> Rejected e
      | Fulfilled response \<Rightarrow> Fulfilled (data response))"

section \<open>pages/Forecast.tsx\<close>

record Forecast_state =
  customersFile :: "File option"
  campaignHistoryFile :: "File option"

definition Forecast_init :: Forecast_state where
  "Forecast_init = \<lparr>customersFile = None, campaignHistoryFile = None\<rparr>"

datatype upload_type = customers | campaign

text \<open>
  \<open>handleFileUpload(e, type)\<close>; the first argument is \<open>e.target.files?.[0]\<close>, \<open>None\<close> when
  the selection is empty.
\<close>

definition handleFileUpload :: "File option \<Rightarrow> upload_type \<Rightarrow> Forecast_state \<Rightarrow> Forecast_state" where
  "handleFileUpload file ty p =
     (case file of
        None \<Rightarrow> p
      | Some f \<Rightarrow>
          (if ty = customers then p\<lparr>customersFile := Some f\<rparr>
           else p\<lparr>campaignHistoryFile := Some f\<rparr>))"

text \<open>\<open>handleRunForecast\<close> up to the \<open>await\<close> (lines 29 to 39).\<close>

definition handleRunForecast_start :: "Forecast_state \<Rightarrow> app \<Rightarrow> app" where
  "handleRunForecast_start p w =
     (case (customersFile p, campaignHistoryFile p) of
        (Some cf, Some hf) \<Rightarrow>
          api_post (runForecast_post \<lparr>customers_file = cf, campaign_history_file = hf\<rparr>)
            (w\<lparr>isLoading := True\<rparr>)
      | _ \<Rightarrow> show_toast (toast_error ''Please upload both CSV files'') w)"

text \<open>
  \<open>handleRunForecast\<close> from the \<open>await\<close> on (lines 36 to 52): the \<open>try\<close> body on the
  awaited value, the \<open>catch\<close> for a rejection and for the \<open>TypeError\<close> of reading
  \<open>response.status\<close> of \<open>null\<close>, then the \<open>finally\<close>.  An object is truthy, so
  \<open>response.results\<close> holds exactly when the field is present.
\<close>

definition handleRunForecast_resume :: "forecast_data json_body promise \<Rightarrow> app \<Rightarrow> app" where
  "handleRunForecast_resume awaited w =
     (let w1 =
        (case awaited of
           Rejected e \<Rightarrow>
             show_toast (toast_error ''Failed to run forecast. Please check your connection.'') w
         | Fulfilled JNull \<Rightarrow>
             show_toast (toast_error ''Failed to run forecast. Please check your connection.'') w
         | Fulfilled JOther \<Rightarrow>
             show_toast (toast_error ''Forecast failed. Please try again.'') w
         | Fulfilled (JObject response) \<Rightarrow>
             (if status response = Some ''success'' \<and> results response \<noteq> None
              then show_toast (toast_success ''Forecast completed successfully!'')
                     (w\<lparr>forecastResults := results response\<rparr>)
              else show_toast (toast_error ''Forecast failed. Please try again.'') w))
      in w1\<lparr>isLoading := False\<rparr>)"


section \<open>JavaScript strings\<close>

text \<open>
  A string is a list of characters; the characters of the model are the code units below
  256.  \<open>String.prototype.trim\<close> removes white space and line terminators from both ends;
  below 256 these are tab, line feed, vertical tab, form feed, carriage return, space and
  the no-break space.
\<close>

definition white_space :: "char list" where
  "white_space = [CHR 0x09, CHR 0x0A, CHR 0x0B, CHR 0x0C, CHR 0x0D, CHR 0x20, CHR 0xA0]"

definition trim :: "string \<Rightarrow> string" where
  "trim s = rev (dropWhile (\<lambda>c. c \<in> set white_space)
                  (rev (dropWhile (\<lambda>c. c \<in> set white_space) s)))"

text \<open>\<open>String(n)\<close> for a non-negative integer below \<open>10^21\<close>: its decimal digits.\<close>

fun show_nat :: "nat \<Rightarrow> string" where
  "show_nat n =
     (if n < 10 then [''0123456789'' ! n]
      else show_nat (n div 10) @ [''0123456789'' ! (n mod 10)])"

section \<open>pages/ImageGenerator.tsx\<close>

record Image_state =
  prompt :: string
  generatedImage :: "string option"

definition Image_init :: Image_state where
  "Image_init = \<lparr>prompt = [], generatedImage = None\<rparr>"

text \<open>The template literal of line 19.\<close>

definition campaignPrompt :: "ForecastResults \<Rightarrow> string" where
  "campaignPrompt fr =
     ''Create a marketing image for a '' @ recommended_campaign_type fr
     @ '' campaign with '' @ recommended_offer fr
     @ ''. Target audience: '' @ target (campaign_details fr)
     @ ''. Professional, modern design with engaging visuals.''"

definition generatePromptFromForecast :: "Image_state \<Rightarrow> app \<Rightarrow> Image_state \<times> app" where
  "generatePromptFromForecast p w =
     (case forecastResults w of
        Some fr \<Rightarrow> (p\<lparr>prompt := campaignPrompt fr\<rparr>, w)
      | None \<Rightarrow>
          (p, show_toast
                (toast_error ''No forecast results available. Please run a forecast first.'') w))"

text \<open>\<open>handleGenerateImage\<close> up to the \<open>await\<close> (lines 27 to 34).\<close>

definition handleGenerateImage_start :: "Image_state \<Rightarrow> app \<Rightarrow> app" where
  "handleGenerateImage_start p w =
     (if trim (prompt p) = []
      then show_toast (toast_error ''Please enter a prompt for image generation'') w
      else api_post (generateImage_post \<lparr>prompt_req = prompt p\<rparr>) (w\<lparr>isLoading := True\<rparr>))"

text \<open>
  \<open>handleGenerateImage\<close> from the \<open>await\<close> on (lines 34 to 47).  A string is truthy when
  it is not empty.
\<close>

definition handleGenerateImage_resume ::
  "image_data json_body promise \<Rightarrow> Image_state \<Rightarrow> app \<Rightarrow> Image_state \<times> app" where
  "handleGenerateImage_resume awaited p w =
     (let (p1, w1) =
        (case awaited of
           Rejected e \<Rightarrow>
             (p, show_toast
                   (toast_error ''Failed to generate image. Please check your connection.'') w)
         | Fulfilled JNull \<Rightarrow>
             (p, show_toast
                   (toast_error ''Failed to generate image. Please check your connection.'') w)
         | Fulfilled JOther \<Rightarrow>
             (p, show_toast (toast_error ''Failed to generate image. Please try again.'') w)
         | Fulfilled (JObject response) \<Rightarrow>
             (case image_url response of
                Some (c # cs) \<Rightarrow>
                  (p\<lparr>generatedImage := Some (c # cs)\<rparr>,
                   show_toast (toast_success ''Image generated successfully!'') w)
              | _ \<Rightarrow>
                  (p, show_toast (toast_error ''Failed to generate image. Please try again.'') w)))
      in (p1, w1\<lparr>isLoading := False\<rparr>))"


section \<open>pages/SloganGenerator.tsx\<close>

record Slogan_state =
  context' :: string
  slogans :: "string list"

definition Slogan_init :: Slogan_state where
  "Slogan_init = \<lparr>context' = [], slogans = []\<rparr>"

text \<open>
  The template literal of line 19.  It interpolates two numbers; \<open>num_str\<close> is the
  conversion of a number to a string (\<open>Number.prototype.toString\<close>), a parameter.
\<close>

definition campaignContext :: "(number \<Rightarrow> string) \<Rightarrow> ForecastResults \<Rightarrow> string" where
  "campaignContext num_str fr =
     ''Campaign Type: '' @ recommended_campaign_type fr
     @ ''\<newline>Offer: '' @ recommended_offer fr
     @ ''\<newline>Target Audience: '' @ target (campaign_details fr)
     @ ''\<newline>Discount: '' @ num_str (discount (campaign_details fr))
     @ ''%\<newline>Budget: $'' @ num_str (budget (campaign_details fr))"

definition generateContextFromForecast ::
  "(number \<Rightarrow> string) \<Rightarrow> Slogan_state \<Rightarrow> app \<Rightarrow> Slogan_state \<times> app" where
  "generateContextFromForecast num_str p w =
     (case forecastResults w of
        Some fr \<Rightarrow> (p\<lparr>context' := campaignContext num_str fr\<rparr>, w)
      | None \<Rightarrow>
          (p, show_toast
                (toast_error ''No forecast results available. Please run a forecast first.'') w))"

text \<open>\<open>handleGenerateSlogans\<close> up to the \<open>await\<close> (lines 27 to 34).\<close>

definition handleGenerateSlogans_start :: "Slogan_state \<Rightarrow> app \<Rightarrow> app" where
  "handleGenerateSlogans_start p w =
     (if trim (context' p) = []
      then show_toast (toast_error ''Please enter context for slogan generation'') w
      else api_post (generateSlogan_post \<lparr>context_req = context' p\<rparr>) (w\<lparr>isLoading := True\<rparr>))"

text \<open>\<open>handleGenerateSlogans\<close> from the \<open>await\<close> on (lines 34 to 47).\<close>

definition handleGenerateSlogans_resume ::
  "slogan_data json_body promise \<Rightarrow> Slogan_state \<Rightarrow> app \<Rightarrow> Slogan_state \<times> app" where
  "handleGenerateSlogans_resume awaited p w =
     (let (p1, w1) =
        (case awaited of
           Rejected e \<Rightarrow>
             (p, show_toast
                   (toast_error ''Failed to generate slogans. Please check your connection.'') w)
         | Fulfilled JNull \<Rightarrow>
             (p, show_toast
                   (toast_error ''Failed to generate slogans. Please check your connection.'') w)
         | Fulfilled JOther \<Rightarrow>
             (p, show_toast (toast_error ''Failed to generate slogans. Please try again.'') w)
         | Fulfilled (JObject response) \<Rightarrow>
             (case slogans' response of
                Some xs \<Rightarrow>
                  (p\<lparr>slogans := xs\<rparr>,
                   show_toast (toast_success ''Slogans generated successfully!'') w)
              | None \<Rightarrow>
                  (p, show_toast (toast_error ''Failed to generate slogans. Please try again.'') w)))
      in (p1, w1\<lparr>isLoading := False\<rparr>))"


section \<open>Regular expressions\<close>

text \<open>
  The fragment of JavaScript regular expressions the YouTube pattern is written in: a
  literal string, a character class, sequence, alternative \<open>a|b\<close>, option \<open>a?\<close> and
  repetition \<open>a+\<close>.  \<open>rests r s\<close> lists what can remain of \<open>s\<close> after \<open>r\<close> has matched a
  prefix of it, over every choice the backtracking matcher can make; an iteration of \<open>a+\<close>
  that consumes nothing is not repeated.
\<close>

datatype regex = Str string | Cls "char list" | Seq regex regex | Alt regex regex
  | Opt regex | Plus regex

fun rests :: "regex \<Rightarrow> string \<Rightarrow> string list" where
  "rests (Str l) s = (if prefix l s then [drop (length l) s] else [])"
| "rests (Cls cs) s = (case s of [] \<Rightarrow> [] | c # t \<Rightarrow> if c \<in> set cs then [t] else [])"
| "rests (Seq a b) s = concat (map (rests b) (rests a s))"
| "rests (Alt a b) s = rests a s @ rests b s"
| "rests (Opt a) s = rests a s @ [s]"
| "rests (Plus a) s =
     concat (map (\<lambda>r. (if length r < length s then rests (Plus a) r else []) @ [r])
                 (rests a s))"

text \<open>
  \<open>/^r/.test(s)\<close> for a pattern with no flag: anchored at the start, not at the end, so it
  holds when \<open>r\<close> matches some prefix of \<open>s\<close>.
\<close>

definition test :: "regex \<Rightarrow> string \<Rightarrow> bool" where
  "test r s = (rests r s \<noteq> [])"

text \<open>The class \<open>\w\<close>.\<close>

definition word_chars :: "char list" where
  "word_chars = ''abcdefghijklmnopqrstuvwxyzABCDEFGHIJKLMNOPQRSTUVWXYZ0123456789_''"

section \<open>pages/YouTubeQA.tsx\<close>

record YouTubeQA_state =
  youtubeUrl :: string
  question :: string
  videoInfo :: "VideoInfo option"
  answer :: string
  isProcessing :: bool
  isQuerying :: bool

definition YouTubeQA_init :: YouTubeQA_state where
  "YouTubeQA_init = \<lparr>youtubeUrl = [], question = [], videoInfo = None, answer = [],
                      isProcessing = False, isQuerying = False\<rparr>"

text \<open>
  Line 33:
  \<^verbatim>\<open>/^(https?:\/\/)?(www\.)?(youtube\.com\/watch\?v=|youtu\.be\/)[\w-]+/\<close>
\<close>

definition youtubeRegex :: regex where
  "youtubeRegex =
     Seq (Opt (Seq (Str ''http'') (Seq (Opt (Str ''s'')) (Str ''://''))))
      (Seq (Opt (Str ''www.''))
        (Seq (Alt (Str ''youtube.com/watch?v='') (Str ''youtu.be/''))
          (Plus (Cls (word_chars @ ''-'')))))"

text \<open>
  The recognised video-link shapes as the specification writes them, with the scheme
  required: \<^verbatim>\<open>https?://(www.)?youtube.com/watch?v=<id>\<close> or
  \<^verbatim>\<open>https?://(www.)?youtu.be/<id>\<close>, the \<open>id\<close> one or more word or hyphen characters.
\<close>

definition claimed_link_regex :: regex where
  "claimed_link_regex =
     Seq (Seq (Str ''http'') (Seq (Opt (Str ''s'')) (Str ''://'')))
      (Seq (Opt (Str ''www.''))
        (Seq (Alt (Str ''youtube.com/watch?v='') (Str ''youtu.be/''))
          (Plus (Cls (word_chars @ ''-'')))))"

text \<open>\<open>handleProcessVideo\<close> up to the \<open>await\<close> (lines 27 to 41).\<close>

definition handleProcessVideo_start :: "YouTubeQA_state \<Rightarrow> app \<Rightarrow> YouTubeQA_state \<times> app" where
  "handleProcessVideo_start p w =
     (if trim (youtubeUrl p) = []
      then (p, show_toast (toast_error ''Please enter a YouTube URL'') w)
      else if \<not> test youtubeRegex (youtubeUrl p)
      then (p, show_toast (toast_error ''Please enter a valid YouTube URL'') w)
      else (p\<lparr>isProcessing := True\<rparr>,
            api_post (processVideo_post \<lparr>youtube_url = youtubeUrl p\<rparr>) w))"

text \<open>\<open>handleProcessVideo\<close> from the \<open>await\<close> on (lines 41 to 54).\<close>

definition handleProcessVideo_resume ::
  "process_data json_body promise \<Rightarrow> YouTubeQA_state \<Rightarrow> app \<Rightarrow> YouTubeQA_state \<times> app" where
  "handleProcessVideo_resume awaited p w =
     (let (p1, w1) =
        (case awaited of
           Rejected e \<Rightarrow>
             (p, show_toast
                   (toast_error ''Failed to process video. Please check the URL and try again.'') w)
         | Fulfilled JNull \<Rightarrow>
             (p, show_toast
                   (toast_error ''Failed to process video. Please check the URL and try again.'') w)
         | Fulfilled JOther \<Rightarrow>
             (p, show_toast (toast_error ''Failed to process video. Please try again.'') w)
         | Fulfilled (JObject response) \<Rightarrow>
             (case video_info response of
                Some v \<Rightarrow>
                  (p\<lparr>videoInfo := Some v\<rparr>,
                   show_toast (toast_success ''Video processed successfully!'') w)
              | None \<Rightarrow>
                  (p, show_toast (toast_error ''Failed to process video. Please try again.'') w)))
      in (p1\<lparr>isProcessing := False\<rparr>, w1))"

text \<open>\<open>handleAskQuestion\<close> up to the \<open>await\<close> (lines 58 to 70).\<close>

definition handleAskQuestion_start :: "YouTubeQA_state \<Rightarrow> app \<Rightarrow> YouTubeQA_state \<times> app" where
  "handleAskQuestion_start p w =
     (if trim (question p) = []
      then (p, show_toast (toast_error ''Please enter a question'') w)
      else if videoInfo p = None
      then (p, show_toast (toast_error ''Please process a video first'') w)
      else (p\<lparr>isQuerying := True\<rparr>,
            api_post (queryVideo_post \<lparr>question_req = question p\<rparr>) w))"

text \<open>\<open>handleAskQuestion\<close> from the \<open>await\<close> on (lines 70 to 83).\<close>

definition handleAskQuestion_resume ::
  "query_data json_body promise \<Rightarrow> YouTubeQA_state \<Rightarrow> app \<Rightarrow> YouTubeQA_state \<times> app" where
  "handleAskQuestion_resume awaited p w =
     (let (p1, w1) =
        (case awaited of
           Rejected e \<Rightarrow>
             (p, show_toast (toast_error ''Failed to get answer. Please try again.'') w)
         | Fulfilled JNull \<Rightarrow>
             (p, show_toast (toast_error ''Failed to get answer. Please try again.'') w)
         | Fulfilled JOther \<Rightarrow>
             (p, show_toast (toast_error ''Failed to get answer. Please try again.'') w)
         | Fulfilled (JObject response) \<Rightarrow>
             (case answer' response of
                Some (c # cs) \<Rightarrow>
                  (p\<lparr>answer := c # cs\<rparr>,
                   show_toast (toast_success ''Question answered successfully!'') w)
              | _ \<Rightarrow>
                  (p, show_toast (toast_error ''Failed to get answer. Please try again.'') w)))
      in (p1\<lparr>isQuerying := False\<rparr>, w1))"






section \<open>components/ui/file-upload.tsx\<close>

text \<open>
  The props the component's logic reads: \<open>accept\<close> (default \<open>".csv"\<close>) and \<open>maxSize\<close> in MB
  (default 10, a whole number of MB in the model).  The state is the three \<open>useState\<close>
  cells and the list of files the callback \<open>onFileSelect\<close> was called with.
\<close>

record FileUploadProps =
  accept :: string
  maxSize :: nat

definition FileUpload_defaults :: FileUploadProps where
  "FileUpload_defaults = \<lparr>accept = ''.csv'', maxSize = 10\<rparr>"

record FileUpload_state =
  isDragOver :: bool
  selectedFile :: "File option"
  error :: "string option"
  onFileSelect :: "File list"

definition FileUpload_init :: FileUpload_state where
  "FileUpload_init = \<lparr>isDragOver = False, selectedFile = None, error = None, onFileSelect = []\<rparr>"

definition handleFileSelect :: "FileUploadProps \<Rightarrow> File \<Rightarrow> FileUpload_state \<Rightarrow> FileUpload_state" where
  "handleFileSelect props file st =
     (let st1 = st\<lparr>error := None\<rparr>
      in if size' file > maxSize props * 1024 * 1024
         then st1\<lparr>error := Some (''File size must be less than '' @ show_nat (maxSize props) @ ''MB'')\<rparr>
         else st1\<lparr>selectedFile := Some file, onFileSelect := onFileSelect st1 @ [file]\<rparr>)"

text \<open>\<open>handleDrop\<close>; the argument is \<open>Array.from(e.dataTransfer.files)\<close>.\<close>

definition handleDrop :: "FileUploadProps \<Rightarrow> File list \<Rightarrow> FileUpload_state \<Rightarrow> FileUpload_state" where
  "handleDrop props files st =
     (let st1 = st\<lparr>isDragOver := False\<rparr>
      in case files of [] \<Rightarrow> st1 | f # _ \<Rightarrow> handleFileSelect props f st1)"

text \<open>\<open>handleInputChange\<close>; the argument is \<open>e.target.files?.[0]\<close>.\<close>

definition handleInputChange :: "FileUploadProps \<Rightarrow> File option \<Rightarrow> FileUpload_state \<Rightarrow> FileUpload_state" where
  "handleInputChange props file st =
     (case file of None \<Rightarrow> st | Some f \<Rightarrow> handleFileSelect props f st)"

section \<open>Runs of the application\<close>













section \<open>Runs of the Video-QA page\<close>











section \<open>Example values\<close>

definition ex_details :: campaign_details_t where
  "ex_details = \<lparr>type' = ''Email'', offer = ''20% off'', target = ''Young professionals'',
                 discount = 20, budget = 5000, target_size = 1200\<rparr>"

definition ex_results :: ForecastResults where
  "ex_results = \<lparr>segment_count = 8, recommended_campaign_type = ''Email'',
                 recommended_offer = ''20% off'', success_probability = 764 / 10,
                 privacy_compliance = True, campaign_details = ex_details,
                 report_links = \<lparr>html = ''/r.html'', pdf = ''/r.pdf''\<rparr>\<rparr>"

definition ex_results2 :: ForecastResults where
  "ex_results2 = ex_results\<lparr>recommended_campaign_type := ''SMS''\<rparr>"

definition ex_ok :: "ForecastResults \<Rightarrow> forecast_data json_body promise" where
  "ex_ok r = Fulfilled (JObject \<lparr>status = Some ''success'', results = Some r\<rparr>)"

definition ex_customers :: File where
  "ex_customers = \<lparr>name = ''customers.csv'', size' = 2048\<rparr>"

definition ex_history :: File where
  "ex_history = \<lparr>name = ''campaign_history.csv'', size' = 3072\<rparr>"

definition ex_big :: File where
  "ex_big = \<lparr>name = ''customers.csv'', size' = 11 * 1024 * 1024\<rparr>"

definition ex_exe :: File where
  "ex_exe = \<lparr>name = ''setup.exe'', size' = 1024\<rparr>"

definition ex_app :: app where
  "ex_app = AppProvider\<lparr>forecastResults := Some ex_results\<rparr>"

definition ex_files :: Forecast_state where
  "ex_files = \<lparr>customersFile = Some ex_customers, campaignHistoryFile = Some ex_history\<rparr>"


definition ex_video :: VideoInfo where
  "ex_video = \<lparr>video_id = ''abc123'', url = ''https://www.youtube.com/watch?v=abc123'',
               chunk_count = 42, title = None\<rparr>"

definition ex_qa :: YouTubeQA_state where
  "ex_qa = YouTubeQA_init\<lparr>youtubeUrl := ''youtube.com/watch?v=abc123'',
                          question := ''What is this about?''\<rparr>"

definition ex_qa_https :: YouTubeQA_state where
  "ex_qa_https = YouTubeQA_init\<lparr>youtubeUrl := ''https://www.youtube.com/watch?v=abc123'',
                                question := ''What is this about?''\<rparr>"

definition ex_qa_ftp :: YouTubeQA_state where
  "ex_qa_ftp = YouTubeQA_init\<lparr>youtubeUrl := ''ftp://youtu.be/abc123''\<rparr>"

text \<open>A transport whose exchange ends in a response with status 500: axios rejects.\<close>

definition ex_post_500 :: "request \<Rightarrow> forecast_data json_body AxiosResponse promise" where
  "ex_post_500 r = Rejected (AxiosError (Some 500))"

text \<open>A transport whose exchange ends in status 200 with a body that is not a forecast.\<close>

definition ex_post_malformed :: "request \<Rightarrow> forecast_data json_body AxiosResponse promise" where
  "ex_post_malformed r = Fulfilled \<lparr>data = JOther, http_status = 200\<rparr>"

definition ex_forecast_request :: ForecastRequest where
  "ex_forecast_request = \<lparr>customers_file = ex_customers, campaign_history_file = ex_history\<rparr>"

definition ex_video2 :: VideoInfo where
  "ex_video2 = \<lparr>video_id = ''xyz-9'', url = ''https://youtu.be/xyz-9'',
                chunk_count = 7, title = Some ''Second video''\<rparr>"

definition ex_qa_session :: YouTubeQA_state where
  "ex_qa_session = ex_qa\<lparr>videoInfo := Some ex_video\<rparr>"

definition ex_image :: Image_state where
  "ex_image = Image_init\<lparr>prompt := ''A banner for the spring sale''\<rparr>"

definition ex_slogan :: Slogan_state where
  "ex_slogan = Slogan_init\<lparr>context' := ''Spring sale for young professionals''\<rparr>"




definition ex_num_str :: "number \<Rightarrow> string" where
  "ex_num_str x = (if x = 20 then ''20'' else ''5000'')"

section \<open>Properties of the Forecast controller\<close>

text \<open>
  C7.  A forecast run that fails leaves the stored forecast result as it was.  The run
  fails when the awaited promise rejects (a transport fault or any thrown error), when the
  body is \<open>null\<close> (the read of \<open>response.status\<close> throws and is caught), when the body has no
  \<open>status\<close> equal to \<open>"success"\<close>, or when it has no \<open>results\<close>.  In each case the handler
  shows one error toast and clears the loading flag, and nothing else of the shared state
  changes: the stored result, or its absence, is what readers see afterwards.
\<close>

theorem failed_forecast_leaves_store:
  assumes "awaited = Rejected e \<or> awaited = Fulfilled JNull \<or> awaited = Fulfilled JOther \<or>
           (\<exists>r. awaited = Fulfilled (JObject r) \<and> (status r \<noteq> Some ''success'' \<or> results r = None))"
  shows "forecastResults (handleRunForecast_resume awaited w) = forecastResults w \<and>
         (\<exists>m. handleRunForecast_resume awaited w
             = w\<lparr>toasts := toasts w @ [toast_error m], isLoading := False\<rparr>)"
  using assms by (auto simp: handleRunForecast_resume_def show_toast_def)

theorem failed_forecast_leaves_store_witness:
  "forecastResults (handleRunForecast_resume (Rejected (AxiosError None)) ex_app) = Some ex_results
   \<and> forecastResults (handleRunForecast_resume
        (Fulfilled (JObject \<lparr>status = Some ''error'', results = Some ex_results2\<rparr>)) ex_app)
      = Some ex_results"
  using failed_forecast_leaves_store [of "Rejected (AxiosError None)" "AxiosError None" ex_app]
    failed_forecast_leaves_store
      [of "Fulfilled (JObject \<lparr>status = Some ''error'', results = Some ex_results2\<rparr>)" _ ex_app]
  by (simp add: ex_app_def)

section \<open>Properties of the API client\<close>

text \<open>
  C2, as claimed, fails.  The claim says that no operation throws across its boundary for a
  backend-declared non-success status, only for transport faults.  With a transport whose
  exchange ends in status 500, the promise \<open>runForecast\<close> returns rejects with the axios
  error of that status, which is not a transport fault.
\<close>

theorem api_client_rethrows_bad_status:
  "runForecast ex_post_500 ex_forecast_request = Rejected (AxiosError (Some 500))
   \<and> \<not> is_transport_fault (AxiosError (Some 500))"
  by (simp add: runForecast_def ex_post_500_def)

text \<open>
  C2, amended.  Each of the five operations is a pass-through of the transport: when the
  promise of \<open>api.post\<close> rejects, with whatever error (a status outside 2xx as much as a
  missing response), the operation rejects with that same error, and when it fulfils, the
  operation fulfils with \<open>response.data\<close> as it is, well-formed or not.  Telling success
  from failure is left to the calling controller.
\<close>

theorem api_client_passes_through:
  "(post (runForecast_post d1) = Rejected e \<longrightarrow> runForecast post d1 = Rejected e) \<and>
   (post (runForecast_post d1) = Fulfilled r \<longrightarrow> runForecast post d1 = Fulfilled (data r)) \<and>
   (post (generateImage_post d2) = Rejected e \<longrightarrow> generateImage post d2 = Rejected e) \<and>
   (post (generateImage_post d2) = Fulfilled r \<longrightarrow> generateImage post d2 = Fulfilled (data r)) \<and>
   (post (generateSlogan_post d3) = Rejected e \<longrightarrow> generateSlogan post d3 = Rejected e) \<and>
   (post (generateSlogan_post d3) = Fulfilled r \<longrightarrow> generateSlogan post d3 = Fulfilled (data r)) \<and>
   (post (processVideo_post d4) = Rejected e \<longrightarrow> processVideo post d4 = Rejected e) \<and>
   (post (processVideo_post d4) = Fulfilled r \<longrightarrow> processVideo post d4 = Fulfilled (data r)) \<and>
   (post (queryVideo_post d5) = Rejected e \<longrightarrow> queryVideo post d5 = Rejected e) \<and>
   (post (queryVideo_post d5) = Fulfilled r \<longrightarrow> queryVideo post d5 = Fulfilled (data r))"
  by (simp add: runForecast_def generateImage_def generateSlogan_def processVideo_def
      queryVideo_def)

theorem api_client_passes_through_witness:
  "runForecast ex_post_malformed ex_forecast_request = Fulfilled JOther \<and>
   generateImage ex_post_malformed \<lparr>prompt_req = ''a banner''\<rparr> = Fulfilled JOther \<and>
   generateSlogan ex_post_malformed \<lparr>context_req = ''spring sale''\<rparr> = Fulfilled JOther \<and>
   processVideo ex_post_malformed \<lparr>youtube_url = ''https://youtu.be/abc123''\<rparr> = Fulfilled JOther \<and>
   queryVideo ex_post_malformed \<lparr>question_req = ''What is this about?''\<rparr> = Fulfilled JOther \<and>
   generateImage ex_post_500 \<lparr>prompt_req = ''a banner''\<rparr> = Rejected (AxiosError (Some 500)) \<and>
   generateSlogan ex_post_500 \<lparr>context_req = ''spring sale''\<rparr> = Rejected (AxiosError (Some 500)) \<and>
   processVideo ex_post_500 \<lparr>youtube_url = ''https://youtu.be/abc123''\<rparr>
     = Rejected (AxiosError (Some 500)) \<and>
   queryVideo ex_post_500 \<lparr>question_req = ''What is this about?''\<rparr>
     = Rejected (AxiosError (Some 500))"
proof -
  have m: "ex_post_malformed x = Fulfilled \<lparr>data = JOther, http_status = 200\<rparr>" for x
    by (simp add: ex_post_malformed_def)
  have f: "ex_post_500 x = Rejected (AxiosError (Some 500))" for x
    by (simp add: ex_post_500_def)
  show ?thesis
    using api_client_passes_through
      [where post = ex_post_malformed and r = "\<lparr>data = JOther, http_status = 200\<rparr>"
         and ?d1.0 = ex_forecast_request and ?d2.0 = "\<lparr>prompt_req = ''a banner''\<rparr>"
         and ?d3.0 = "\<lparr>context_req = ''spring sale''\<rparr>"
         and ?d4.0 = "\<lparr>youtube_url = ''https://youtu.be/abc123''\<rparr>"
         and ?d5.0 = "\<lparr>question_req = ''What is this about?''\<rparr>"]
      api_client_passes_through
      [where post = ex_post_500 and e = "AxiosError (Some 500)"
         and ?d2.0 = "\<lparr>prompt_req = ''a banner''\<rparr>"
         and ?d3.0 = "\<lparr>context_req = ''spring sale''\<rparr>"
         and ?d4.0 = "\<lparr>youtube_url = ''https://youtu.be/abc123''\<rparr>"
         and ?d5.0 = "\<lparr>question_req = ''What is this about?''\<rparr>"]
    unfolding m f by simp
qed

section \<open>Properties of the Image and Slogan controllers\<close>

lemma campaignPrompt_fields:
  "sublist (recommended_campaign_type fr) (campaignPrompt fr)"
  "sublist (recommended_offer fr) (campaignPrompt fr)"
  "sublist (target (campaign_details fr)) (campaignPrompt fr)"
proof -
  show "sublist (recommended_campaign_type fr) (campaignPrompt fr)"
    unfolding campaignPrompt_def by (rule sublist_appendI)
  have "campaignPrompt fr
          = (''Create a marketing image for a '' @ recommended_campaign_type fr
             @ '' campaign with '') @ recommended_offer fr
            @ (''. Target audience: '' @ target (campaign_details fr)
             @ ''. Professional, modern design with engaging visuals.'')"
    by (simp only: campaignPrompt_def append_assoc)
  then show "sublist (recommended_offer fr) (campaignPrompt fr)"
    by (simp only: sublist_appendI)
  have "campaignPrompt fr
          = (''Create a marketing image for a '' @ recommended_campaign_type fr
             @ '' campaign with '' @ recommended_offer fr @ ''. Target audience: '')
            @ target (campaign_details fr)
            @ ''. Professional, modern design with engaging visuals.''"
    by (simp only: campaignPrompt_def append_assoc)
  then show "sublist (target (campaign_details fr)) (campaignPrompt fr)"
    by (simp only: sublist_appendI)
qed

lemma campaignContext_fields:
  "sublist (recommended_campaign_type fr) (campaignContext f fr)"
  "sublist (recommended_offer fr) (campaignContext f fr)"
  "sublist (target (campaign_details fr)) (campaignContext f fr)"
proof -
  show "sublist (recommended_campaign_type fr) (campaignContext f fr)"
    unfolding campaignContext_def by (rule sublist_appendI)
  have "campaignContext f fr
          = (''Campaign Type: '' @ recommended_campaign_type fr @ ''\<newline>Offer: '')
            @ recommended_offer fr
            @ (''\<newline>Target Audience: '' @ target (campaign_details fr)
               @ ''\<newline>Discount: '' @ f (discount (campaign_details fr))
               @ ''%\<newline>Budget: $'' @ f (budget (campaign_details fr)))"
    by (simp only: campaignContext_def append_assoc)
  then show "sublist (recommended_offer fr) (campaignContext f fr)"
    by (simp only: sublist_appendI)
  have "campaignContext f fr
          = (''Campaign Type: '' @ recommended_campaign_type fr @ ''\<newline>Offer: ''
              @ recommended_offer fr @ ''\<newline>Target Audience: '')
            @ target (campaign_details fr)
            @ (''\<newline>Discount: '' @ f (discount (campaign_details fr))
               @ ''%\<newline>Budget: $'' @ f (budget (campaign_details fr)))"
    by (simp only: campaignContext_def append_assoc)
  then show "sublist (target (campaign_details fr)) (campaignContext f fr)"
    by (simp only: sublist_appendI)
qed

text \<open>
  C8.  When a forecast result is stored, the prompt that \<open>generatePromptFromForecast\<close>
  writes into the Image page and the context that \<open>generateContextFromForecast\<close> writes
  into the Slogan page each contain the stored \<open>recommended_campaign_type\<close>,
  \<open>recommended_offer\<close> and \<open>campaign_details.target\<close> as contiguous substrings, unchanged.
\<close>

theorem forecast_fields_survive_formatting:
  assumes "forecastResults w = Some fr"
  shows "sublist (recommended_campaign_type fr) (prompt (fst (generatePromptFromForecast p w))) \<and>
         sublist (recommended_offer fr) (prompt (fst (generatePromptFromForecast p w))) \<and>
         sublist (target (campaign_details fr)) (prompt (fst (generatePromptFromForecast p w))) \<and>
         sublist (recommended_campaign_type fr)
           (context' (fst (generateContextFromForecast num_str q w))) \<and>
         sublist (recommended_offer fr)
           (context' (fst (generateContextFromForecast num_str q w))) \<and>
         sublist (target (campaign_details fr))
           (context' (fst (generateContextFromForecast num_str q w)))"
  using assms
  by (simp add: generatePromptFromForecast_def generateContextFromForecast_def
      campaignPrompt_fields campaignContext_fields)

theorem forecast_fields_survive_formatting_witness:
  "sublist ''Email'' (prompt (fst (generatePromptFromForecast Image_init ex_app))) \<and>
   sublist ''20% off'' (prompt (fst (generatePromptFromForecast Image_init ex_app))) \<and>
   sublist ''Young professionals'' (prompt (fst (generatePromptFromForecast Image_init ex_app))) \<and>
   sublist ''Email'' (context' (fst (generateContextFromForecast ex_num_str Slogan_init ex_app))) \<and>
   sublist ''20% off'' (context' (fst (generateContextFromForecast ex_num_str Slogan_init ex_app))) \<and>
   sublist ''Young professionals''
     (context' (fst (generateContextFromForecast ex_num_str Slogan_init ex_app)))"
proof -
  have h: "forecastResults ex_app = Some ex_results"
    by (simp add: ex_app_def)
  have f: "recommended_campaign_type ex_results = ''Email''"
    "recommended_offer ex_results = ''20% off''"
    "target (campaign_details ex_results) = ''Young professionals''"
    by (simp_all add: ex_results_def ex_details_def)
  show ?thesis
    using forecast_fields_survive_formatting [OF h, of Image_init ex_num_str Slogan_init]
    unfolding f .
qed

section \<open>Properties of the Video-QA controller\<close>

lemma mem_rests_Str: "q \<in> set (rests (Str l) s) \<longleftrightarrow> s = l @ q"
  by (auto simp: prefix_def)

lemma mem_rests_Seq:
  "q \<in> set (rests (Seq a b) s) \<longleftrightarrow> (\<exists>r. r \<in> set (rests a s) \<and> q \<in> set (rests b r))"
  by auto

lemma mem_rests_Opt: "q \<in> set (rests (Opt a) s) \<longleftrightarrow> q = s \<or> q \<in> set (rests a s)"
  by auto

lemma mem_rests_Alt:
  "q \<in> set (rests (Alt a b) s) \<longleftrightarrow> q \<in> set (rests a s) \<or> q \<in> set (rests b s)"
  by auto

lemma test_Seq: "test (Seq a b) s = (\<exists>r. r \<in> set (rests a s) \<and> test b r)"
  by (auto simp: test_def)

lemma test_Plus: "test (Plus a) s = test a s"
  by (cases "rests a s") (simp_all add: test_def)

lemma test_Cls: "test (Cls cs) s = (\<exists>c t. s = c # t \<and> c \<in> set cs)"
  by (cases s) (auto simp: test_def)

lemma scheme_rests:
  "q \<in> set (rests (Opt (Seq (Str a) (Seq (Opt (Str b)) (Str c)))) s)
     \<longleftrightarrow> (\<exists>p\<in>{[], a @ c, a @ b @ c}. s = p @ q)"
  unfolding mem_rests_Opt mem_rests_Seq mem_rests_Str by auto

lemma www_rests: "q \<in> set (rests (Opt (Str w)) s) \<longleftrightarrow> (\<exists>p\<in>{[], w}. s = p @ q)"
  unfolding mem_rests_Opt mem_rests_Str by auto

lemma host_rests:
  "q \<in> set (rests (Alt (Str h1) (Str h2)) s) \<longleftrightarrow> (\<exists>p\<in>{h1, h2}. s = p @ q)"
  unfolding mem_rests_Alt mem_rests_Str by auto

lemma chain_of_prefixes:
  "(\<exists>r1. (\<exists>p\<in>A. u = p @ r1) \<and> (\<exists>r2. (\<exists>p\<in>B. r1 = p @ r2) \<and>
       (\<exists>r3. (\<exists>p\<in>C. r2 = p @ r3) \<and> (\<exists>c t. r3 = c # t \<and> c \<in> S))))
   = (\<exists>p1\<in>A. \<exists>p2\<in>B. \<exists>p3\<in>C. \<exists>c t. u = p1 @ p2 @ p3 @ c # t \<and> c \<in> S)"
  by blast

lemma test_link_shape:
  "test (Seq (Opt (Seq (Str a) (Seq (Opt (Str b)) (Str c))))
          (Seq (Opt (Str w)) (Seq (Alt (Str h1) (Str h2)) (Plus (Cls cs))))) u
   = (\<exists>scheme\<in>{[], a @ c, a @ b @ c}. \<exists>www\<in>{[], w}. \<exists>host\<in>{h1, h2}. \<exists>ch rest.
        u = scheme @ www @ host @ ch # rest \<and> ch \<in> set cs)"
  unfolding test_Seq test_Plus test_Cls scheme_rests www_rests host_rests
  by (rule chain_of_prefixes)

lemma youtubeRegex_shape:
  "test youtubeRegex u =
     (\<exists>scheme\<in>{[], ''http://'', ''https://''}. \<exists>www\<in>{[], ''www.''}.
        \<exists>host\<in>{''youtube.com/watch?v='', ''youtu.be/''}. \<exists>c rest.
          u = scheme @ www @ host @ c # rest \<and> c \<in> set (word_chars @ ''-''))"
proof -
  have e: "''http'' @ ''://'' = ''http://''" "''http'' @ ''s'' @ ''://'' = ''https://''"
    by simp_all
  show ?thesis
    unfolding youtubeRegex_def test_link_shape e ..
qed

lemma trim_Nil_iff: "trim s = [] \<longleftrightarrow> set s \<subseteq> set white_space"
proof -
  let ?P = "\<lambda>c. c \<in> set white_space"
  have "trim s = [] \<longleftrightarrow> (\<forall>x\<in>set (dropWhile ?P s). ?P x)"
    by (simp add: trim_def dropWhile_eq_Nil_conv)
  also have "\<dots> \<longleftrightarrow> dropWhile ?P s = []"
  proof (cases "dropWhile ?P s")
    case Nil
    then show ?thesis by (auto dest: set_dropWhileD)
  next
    case (Cons x xs)
    then have "\<not> ?P x" using hd_dropWhile [of ?P s] by auto
    with Cons show ?thesis by auto
  qed
  also have "\<dots> \<longleftrightarrow> set s \<subseteq> set white_space"
    by (auto simp: dropWhile_eq_Nil_conv)
  finally show ?thesis .
qed

lemma class_not_white: "c \<in> set (word_chars @ ''-'') \<Longrightarrow> c \<notin> set white_space"
  by (auto simp: word_chars_def white_space_def)

lemma test_youtubeRegex_not_blank:
  assumes "test youtubeRegex u"
  shows "trim u \<noteq> []"
proof -
  from assms obtain scheme www host c rest
    where u: "u = scheme @ www @ host @ c # rest" and c: "c \<in> set (word_chars @ ''-'')"
    unfolding youtubeRegex_shape by blast
  have "c \<in> set u" unfolding u by simp
  with class_not_white [OF c] show ?thesis
    unfolding trim_Nil_iff by blast
qed














text \<open>
  C10.  An ingestion that fails (the promise rejects, the body is \<open>null\<close>, or it has no
  \<open>video_info\<close>) leaves \<open>videoInfo\<close> as it was, so a question asked afterwards against a
  session held before is still dispatched; and \<open>videoInfo\<close> changes only when the response
  carries a \<open>video_info\<close>.
\<close>

theorem failed_ingestion_keeps_session:
  assumes "awaited = Rejected e \<or> awaited = Fulfilled JNull \<or> awaited = Fulfilled JOther \<or>
           (\<exists>r. awaited = Fulfilled (JObject r) \<and> video_info r = None)"
  shows "videoInfo (fst (handleProcessVideo_resume awaited p w)) = videoInfo p \<and>
         (videoInfo p \<noteq> None \<and> trim (question p) \<noteq> [] \<longrightarrow>
            requests (snd (handleAskQuestion_start (fst (handleProcessVideo_resume awaited p w)) w'))
              = requests w' @ [queryVideo_post \<lparr>question_req = question p\<rparr>]) \<and>
         (videoInfo (fst (handleProcessVideo_resume a' p w)) \<noteq> videoInfo p \<longrightarrow>
            (\<exists>r v. a' = Fulfilled (JObject r) \<and> video_info r = Some v))"
proof -
  have 1: "fst (handleProcessVideo_resume awaited p w) = p\<lparr>isProcessing := False\<rparr>"
    using assms by (auto simp: handleProcessVideo_resume_def)
  have 2: "videoInfo (fst (handleProcessVideo_resume a' p w)) \<noteq> videoInfo p \<longrightarrow>
            (\<exists>r v. a' = Fulfilled (JObject r) \<and> video_info r = Some v)"
    by (auto simp: handleProcessVideo_resume_def split: promise.splits json_body.splits option.splits)
  show ?thesis
    unfolding 1 using 2 by (simp add: handleAskQuestion_start_def api_post_def)
qed

theorem failed_ingestion_keeps_session_witness:
  "videoInfo (fst (handleProcessVideo_resume (Fulfilled (JObject \<lparr>video_info = None\<rparr>))
       (ex_qa\<lparr>videoInfo := Some ex_video\<rparr>) AppProvider)) = Some ex_video \<and>
   requests (snd (handleAskQuestion_start
       (fst (handleProcessVideo_resume (Fulfilled (JObject \<lparr>video_info = None\<rparr>))
          (ex_qa\<lparr>videoInfo := Some ex_video\<rparr>) AppProvider)) AppProvider))
     = [queryVideo_post \<lparr>question_req = ''What is this about?''\<rparr>] \<and>
   videoInfo (fst (handleProcessVideo_resume (Fulfilled (JObject \<lparr>video_info = Some ex_video2\<rparr>))
       (ex_qa\<lparr>videoInfo := Some ex_video\<rparr>) AppProvider)) = Some ex_video2"
proof -
  have n: "videoInfo (fst (handleProcessVideo_resume
             (Fulfilled (JObject \<lparr>video_info = Some ex_video2\<rparr>))
             (ex_qa\<lparr>videoInfo := Some ex_video\<rparr>) AppProvider)) = Some ex_video2"
    by (simp add: handleProcessVideo_resume_def)
  have t: "trim (question (ex_qa\<lparr>videoInfo := Some ex_video\<rparr>)) \<noteq> []"
    by (simp add: ex_qa_def YouTubeQA_init_def trim_def white_space_def)
  have q: "question (ex_qa\<lparr>videoInfo := Some ex_video\<rparr>) = ''What is this about?''"
    by (simp add: ex_qa_def YouTubeQA_init_def)
  have r: "requests AppProvider = []"
    by (simp add: AppProvider_def)
  show ?thesis
    using failed_ingestion_keeps_session
      [of "Fulfilled (JObject \<lparr>video_info = None\<rparr>)" _ "ex_qa\<lparr>videoInfo := Some ex_video\<rparr>"
          AppProvider AppProvider "Fulfilled (JObject \<lparr>video_info = Some ex_video2\<rparr>)"] t n
    unfolding q r by simp
qed

text \<open>
  C5, as claimed, fails.  The claim says that a string lacking the \<open>http\<close> or \<open>https\<close>
  scheme is rejected before dispatch.  The URL \<open>youtube.com/watch?v=abc123\<close> has none of
  the claimed shapes, and \<open>handleProcessVideo\<close> dispatches it.
\<close>

theorem schemeless_link_is_dispatched:
  "requests (snd (handleProcessVideo_start ex_qa AppProvider))
     = [Post ''/rag/process'' (Json [(''youtube_url'', ''youtube.com/watch?v=abc123'')])]
   \<and> \<not> test claimed_link_regex ''youtube.com/watch?v=abc123''"
  by (simp add: handleProcessVideo_start_def ex_qa_def YouTubeQA_init_def AppProvider_def
      trim_def white_space_def test_def youtubeRegex_def claimed_link_regex_def word_chars_def
      api_post_def processVideo_post_def)

text \<open>
  C5, amended.  \<open>handleProcessVideo\<close> dispatches the URL exactly when it begins with an
  optional \<open>http://\<close> or \<open>https://\<close>, an optional \<open>www.\<close>, then \<open>youtube.com/watch?v=\<close> or
  \<open>youtu.be/\<close>, then at least one word or hyphen character; what follows is not
  constrained.  Every other string is rejected with an error toast, the page unchanged and
  no request sent.
\<close>

theorem video_link_gate:
  fixes p :: YouTubeQA_state and w :: app
  defines "shaped \<equiv>
     (\<exists>scheme\<in>{[], ''http://'', ''https://''}. \<exists>www\<in>{[], ''www.''}.
        \<exists>host\<in>{''youtube.com/watch?v='', ''youtu.be/''}. \<exists>c rest.
          youtubeUrl p = scheme @ www @ host @ c # rest \<and> c \<in> set (word_chars @ ''-''))"
  shows "(shaped \<longrightarrow>
            handleProcessVideo_start p w
              = (p\<lparr>isProcessing := True\<rparr>,
                 api_post (processVideo_post \<lparr>youtube_url = youtubeUrl p\<rparr>) w)) \<and>
         (\<not> shaped \<longrightarrow>
            fst (handleProcessVideo_start p w) = p \<and>
            requests (snd (handleProcessVideo_start p w)) = requests w \<and>
            (\<exists>m. toasts (snd (handleProcessVideo_start p w)) = toasts w @ [toast_error m]))"
proof -
  have s: "shaped = test youtubeRegex (youtubeUrl p)"
    unfolding shaped_def youtubeRegex_shape ..
  show ?thesis
    unfolding s
    using test_youtubeRegex_not_blank [of "youtubeUrl p"]
    by (auto simp: handleProcessVideo_start_def show_toast_def)
qed

theorem video_link_gate_witness:
  "handleProcessVideo_start ex_qa AppProvider
     = (ex_qa\<lparr>isProcessing := True\<rparr>,
        api_post (processVideo_post \<lparr>youtube_url = ''youtube.com/watch?v=abc123''\<rparr>) AppProvider)
   \<and> requests (snd (handleProcessVideo_start ex_qa_ftp AppProvider)) = []"
proof -
  have u: "youtubeUrl ex_qa = ''youtube.com/watch?v=abc123''"
    "youtubeUrl ex_qa_ftp = ''ftp://youtu.be/abc123''"
    by (simp_all add: ex_qa_def ex_qa_ftp_def YouTubeQA_init_def)
  have r: "requests AppProvider = []"
    by (simp add: AppProvider_def)
  have a: "CHR ''a'' \<in> set (word_chars @ ''-'')"
    by (simp add: word_chars_def)
  show ?thesis
    using video_link_gate [of ex_qa AppProvider] video_link_gate [of ex_qa_ftp AppProvider] a
    unfolding u r by simp
qed

section \<open>The busy flags\<close>

text \<open>
  C4, as claimed, fails for the Video-QA controller: with a valid link \<open>handleProcessVideo\<close>
  dispatches the ingestion request and the shared flag \<open>isLoading\<close> stays \<open>false\<close>.
\<close>

theorem video_ingestion_leaves_busy_flag:
  "requests (snd (handleProcessVideo_start ex_qa_https AppProvider))
     = [Post ''/rag/process'' (Json [(''youtube_url'', ''https://www.youtube.com/watch?v=abc123'')])]
   \<and> \<not> isLoading (snd (handleProcessVideo_start ex_qa_https AppProvider))"
  by (simp add: handleProcessVideo_start_def ex_qa_https_def YouTubeQA_init_def AppProvider_def
      trim_def white_space_def test_def youtubeRegex_def word_chars_def
      api_post_def processVideo_post_def)

lemma forecast_busy:
  "requests (handleRunForecast_start p w) \<noteq> requests w \<longrightarrow> isLoading (handleRunForecast_start p w)"
  "\<not> isLoading (handleRunForecast_resume fa w)"
  by (simp_all add: handleRunForecast_start_def handleRunForecast_resume_def show_toast_def
      api_post_def split: option.splits)

lemma image_busy:
  "requests (handleGenerateImage_start p w) \<noteq> requests w \<longrightarrow> isLoading (handleGenerateImage_start p w)"
  "\<not> isLoading (snd (handleGenerateImage_resume a p w))"
  by (simp_all add: handleGenerateImage_start_def handleGenerateImage_resume_def show_toast_def
      api_post_def split: promise.splits json_body.splits option.splits list.splits)

lemma slogan_busy:
  "requests (handleGenerateSlogans_start p w) \<noteq> requests w \<longrightarrow> isLoading (handleGenerateSlogans_start p w)"
  "\<not> isLoading (snd (handleGenerateSlogans_resume a p w))"
  by (simp_all add: handleGenerateSlogans_start_def handleGenerateSlogans_resume_def show_toast_def
      api_post_def split: promise.splits json_body.splits option.splits)

lemma process_busy:
  "requests (snd (handleProcessVideo_start p w)) \<noteq> requests w \<longrightarrow> isProcessing (fst (handleProcessVideo_start p w))"
  "\<not> isProcessing (fst (handleProcessVideo_resume a p w))"
  "isLoading (snd (handleProcessVideo_start p w)) = isLoading w"
  "isLoading (snd (handleProcessVideo_resume a p w)) = isLoading w"
  by (simp_all add: handleProcessVideo_start_def handleProcessVideo_resume_def show_toast_def
      api_post_def split: promise.splits json_body.splits option.splits)

lemma ask_busy:
  "requests (snd (handleAskQuestion_start p w)) \<noteq> requests w \<longrightarrow> isQuerying (fst (handleAskQuestion_start p w))"
  "\<not> isQuerying (fst (handleAskQuestion_resume a p w))"
  "isLoading (snd (handleAskQuestion_start p w)) = isLoading w"
  "isLoading (snd (handleAskQuestion_resume a p w)) = isLoading w"
  by (simp_all add: handleAskQuestion_start_def handleAskQuestion_resume_def show_toast_def
      api_post_def split: promise.splits json_body.splits option.splits list.splits)

text \<open>
  C4, amended.  The Forecast, Image and Slogan handlers set the shared flag \<open>isLoading\<close>
  whenever they dispatch a request and clear it when the awaited promise settles, however
  it settles.  The two Video-QA handlers do the same with the page's own flags
  \<open>isProcessing\<close> and \<open>isQuerying\<close> and never change \<open>isLoading\<close>.
\<close>

theorem busy_flag_of_each_controller:
  "(requests (handleRunForecast_start fp w) \<noteq> requests w \<longrightarrow>
      isLoading (handleRunForecast_start fp w)) \<and>
   \<not> isLoading (handleRunForecast_resume fa w) \<and>
   (requests (handleGenerateImage_start ip w) \<noteq> requests w \<longrightarrow>
      isLoading (handleGenerateImage_start ip w)) \<and>
   \<not> isLoading (snd (handleGenerateImage_resume ia ip w)) \<and>
   (requests (handleGenerateSlogans_start sp w) \<noteq> requests w \<longrightarrow>
      isLoading (handleGenerateSlogans_start sp w)) \<and>
   \<not> isLoading (snd (handleGenerateSlogans_resume sa sp w)) \<and>
   (requests (snd (handleProcessVideo_start vp w)) \<noteq> requests w \<longrightarrow>
      isProcessing (fst (handleProcessVideo_start vp w))) \<and>
   \<not> isProcessing (fst (handleProcessVideo_resume va vp w)) \<and>
   (requests (snd (handleAskQuestion_start vp w)) \<noteq> requests w \<longrightarrow>
      isQuerying (fst (handleAskQuestion_start vp w))) \<and>
   \<not> isQuerying (fst (handleAskQuestion_resume qa vp w)) \<and>
   isLoading (snd (handleProcessVideo_start vp w)) = isLoading w \<and>
   isLoading (snd (handleProcessVideo_resume va vp w)) = isLoading w \<and>
   isLoading (snd (handleAskQuestion_start vp w)) = isLoading w \<and>
   isLoading (snd (handleAskQuestion_resume qa vp w)) = isLoading w"
  by (intro conjI forecast_busy image_busy slogan_busy process_busy ask_busy)

theorem busy_flag_of_each_controller_witness:
  "isLoading (handleRunForecast_start ex_files AppProvider) \<and>
   \<not> isLoading (handleRunForecast_resume (ex_ok ex_results) (handleRunForecast_start ex_files AppProvider)) \<and>
   isLoading (handleGenerateImage_start ex_image AppProvider) \<and>
   isLoading (handleGenerateSlogans_start ex_slogan AppProvider) \<and>
   isProcessing (fst (handleProcessVideo_start ex_qa_https AppProvider)) \<and>
   isQuerying (fst (handleAskQuestion_start ex_qa_session AppProvider)) \<and>
   \<not> isLoading (snd (handleAskQuestion_start ex_qa_session AppProvider))"
proof -
  have 3: "requests (handleGenerateImage_start ex_image AppProvider) \<noteq> requests AppProvider"
    by (simp add: handleGenerateImage_start_def ex_image_def Image_init_def trim_def
        white_space_def api_post_def)
  have 4: "requests (handleGenerateSlogans_start ex_slogan AppProvider) \<noteq> requests AppProvider"
    by (simp add: handleGenerateSlogans_start_def ex_slogan_def Slogan_init_def trim_def
        white_space_def api_post_def)
  have 5: "requests (snd (handleAskQuestion_start ex_qa_session AppProvider)) \<noteq> requests AppProvider"
    by (simp add: handleAskQuestion_start_def ex_qa_session_def ex_qa_def YouTubeQA_init_def
        trim_def white_space_def api_post_def)
  have 6: "\<not> isLoading AppProvider"
    by (simp add: AppProvider_def)
  have 1: "requests (handleRunForecast_start ex_files AppProvider) \<noteq> requests AppProvider"
    by (simp add: handleRunForecast_start_def ex_files_def api_post_def)
  have 2: "requests (snd (handleProcessVideo_start ex_qa_https AppProvider)) \<noteq> requests AppProvider"
    by (simp add: handleProcessVideo_start_def ex_qa_https_def YouTubeQA_init_def
      trim_def white_space_def test_def youtubeRegex_def word_chars_def api_post_def)
  show ?thesis
    using busy_flag_of_each_controller
        [where fp = ex_files and w = AppProvider and vp = ex_qa_https and ip = ex_image
           and sp = ex_slogan]
      busy_flag_of_each_controller [where w = AppProvider and vp = ex_qa_session]
      busy_flag_of_each_controller
        [where w = "handleRunForecast_start ex_files AppProvider" and fa = "ex_ok ex_results"]
      1 2 3 4 5 6
    by simp
qed

section \<open>The most recent forecast\<close>





text \<open>What the Image and Slogan handlers leave in the shared state does not depend on the page.\<close>

lemma resume_shared:
  "snd (handleGenerateImage_resume ia p w) = snd (handleGenerateImage_resume ia p' w)"
  "snd (handleGenerateSlogans_resume sa q w) = snd (handleGenerateSlogans_resume sa q' w)"
  by (simp_all add: handleGenerateImage_resume_def handleGenerateSlogans_resume_def
      split: promise.splits json_body.splits option.splits list.splits)













section \<open>File validation\<close>

text \<open>
  The upload component refuses a file above its size limit: the error is set, the file is
  not selected and the callback is not called.
\<close>

lemma FileUpload_rejects_oversized:
  assumes "size' file > maxSize props * 1024 * 1024"
  shows "handleFileSelect props file st
           = st\<lparr>error := Some (''File size must be less than '' @ show_nat (maxSize props) @ ''MB'')\<rparr>"
  using assms by (simp add: handleFileSelect_def)

text \<open>
  C3.  The Forecast page does not go through the upload component: \<open>handleFileUpload\<close>
  stores the chosen file with no size check.  A customers file of 11 MB, above the
  component's default limit of 10 MB, is stored and \<open>handleRunForecast\<close> dispatches the
  forecast request carrying it.
\<close>

theorem forecast_dispatches_oversized_file:
  "requests (handleRunForecast_start
      (handleFileUpload (Some ex_history) campaign
         (handleFileUpload (Some ex_big) customers Forecast_init)) AppProvider)
     = [Post ''/forecast'' (FormData [(''customers_file'', ex_big),
                                       (''campaign_history_file'', ex_history)])]
   \<and> size' ex_big > maxSize FileUpload_defaults * 1024 * 1024"
  by (simp add: handleRunForecast_start_def handleFileUpload_def Forecast_init_def
      AppProvider_def api_post_def runForecast_post_def ex_big_def FileUpload_defaults_def)

text \<open>
  C9.  A dropped file reaches \<open>handleFileSelect\<close>, which checks the size only; \<open>accept\<close> is
  given to the native file input and read nowhere else.  With \<open>accept = ".csv"\<close> the
  dropped \<open>setup.exe\<close> is selected and handed to the caller.
\<close>

theorem dropped_file_of_other_type_is_selected:
  "handleDrop FileUpload_defaults [ex_exe] FileUpload_init
     = FileUpload_init\<lparr>selectedFile := Some ex_exe, onFileSelect := [ex_exe]\<rparr>
   \<and> \<not> suffix (accept FileUpload_defaults) (name ex_exe)"
  by (simp add: handleDrop_def handleFileSelect_def FileUpload_defaults_def FileUpload_init_def
      ex_exe_def suffix_def)

end
